theory Spec2Isabelle
  imports Complex_Main "HOL-Library.Multiset" "HOL-Library.AList"
begin

section \<open>Conventions of the embedding\<close>

text \<open>
  The Go services under \<^verbatim>\<open>backend-go/internal/service\<close> are embedded as HOL functions.
  A \<^verbatim>\<open>float64\<close> is modelled as a \<^typ>\<open>real\<close> (rounding, NaN and infinities are not
  modelled), a Go \<^verbatim>\<open>int\<close> as an \<^typ>\<open>int\<close>, a slice as a list, a Go map as a HOL map or
  an association list. The counters that are only incremented, once per feedback, are left
  unbounded; where the source adds two \<^verbatim>\<open>int\<close> arguments, in
  \<^verbatim>\<open>calculatePatternConfidence\<close>, the 64-bit wrap-around of the sum is written out. The mutexes only serialise the methods; each method is
  modelled as one atomic state transformer. Timestamps (\<^verbatim>\<open>time.Now()\<close>), logging and the
  writes to disk are left out: no modelled result reads them.
\<close>

text \<open>
  The conversion \<^verbatim>\<open>int(x)\<close> of a \<^verbatim>\<open>float64\<close> drops the fraction, that is, it rounds
  toward zero.
\<close>

definition go_int :: "real \<Rightarrow> int" where
  "go_int x = (if 0 \<le> x then \<lfloor>x\<rfloor> else \<lceil>x\<rceil>)"

section \<open>pattern\_learning.go\<close>

text \<open>\<^verbatim>\<open>calculatePatternConfidence(success, fail int) float64\<close>\<close>

text \<open>
  The value of a Go \<^verbatim>\<open>int\<close> (64 bits, two's complement) that an arithmetic result wraps
  to.
\<close>

definition wrap64 :: "int \<Rightarrow> int" where
  "wrap64 x = (x + 2 ^ 63) mod 2 ^ 64 - 2 ^ 63"

definition calculatePatternConfidence :: "int \<Rightarrow> int \<Rightarrow> real" where
  "calculatePatternConfidence success fail =
     (let total = wrap64 (success + fail) in
      if total = 0 then 0.5
      else (real_of_int success + 2) / (real_of_int total + 4))"

section \<open>confidence\_calibration.go\<close>

record CalibrationBucket =
  RangeMin :: real
  RangeMax :: real
  TotalCount :: int
  CorrectCount :: int
  ActualAccuracy :: real
  CalibrationFactor :: real

record CalibrationHistory =
  PredictedConf :: real
  ActualCorrect :: bool
  CalibratedConf :: real

record ConfidenceCalibrator =
  buckets :: "CalibrationBucket list"
  history :: "CalibrationHistory list"

text \<open>\<^verbatim>\<open>initializeBuckets\<close>: the loop \<^verbatim>\<open>for i := 0; i < 10; i++\<close> fills ten buckets.\<close>

definition initBucket :: "int \<Rightarrow> CalibrationBucket" where
  "initBucket i =
     \<lparr> RangeMin = real_of_int (i * 10),
       RangeMax = real_of_int ((i + 1) * 10),
       TotalCount = 0,
       CorrectCount = 0,
       ActualAccuracy = real_of_int (i * 10 + 5) / 100,
       CalibrationFactor = 1 \<rparr>"

definition initializeBuckets :: "CalibrationBucket list" where
  "initializeBuckets = map initBucket [0, 1, 2, 3, 4, 5, 6, 7, 8, 9]"

text \<open>The calibrator that \<^verbatim>\<open>GetConfidenceCalibrator\<close> builds when no snapshot is on disk.\<close>

definition newConfidenceCalibrator :: ConfidenceCalibrator where
  "newConfidenceCalibrator = \<lparr> buckets = initializeBuckets, history = [] \<rparr>"

text \<open>
  The two clamps that follow \<^verbatim>\<open>bucketIdx := int(predictedConfidence / 10)\<close>, in the order
  of the source, and the index itself.
\<close>

definition clampBucketIdx :: "int \<Rightarrow> int" where
  "clampBucketIdx i =
     (let i1 = (if i \<ge> 10 then 9 else i);
          i2 = (if i1 < 0 then 0 else i1)
      in i2)"

definition bucketIdx :: "real \<Rightarrow> int" where
  "bucketIdx predictedConfidence = clampBucketIdx (go_int (predictedConfidence / 10))"

text \<open>
  \<^verbatim>\<open>calibrateInternal\<close>. Indexing a slice out of range panics in Go: the model returns
  \<open>None\<close> there.
\<close>

definition calibrateInternal :: "ConfidenceCalibrator \<Rightarrow> real \<Rightarrow> real option" where
  "calibrateInternal c predictedConfidence =
     (let idx = bucketIdx predictedConfidence in
      if idx < 0 \<or> int (length (buckets c)) \<le> idx then None
      else
        let bucket = buckets c ! nat idx in
        if TotalCount bucket < 5 then Some predictedConfidence
        else
          let calibrated = predictedConfidence * CalibrationFactor bucket;
              calibrated1 = (if calibrated < 0 then 0 else calibrated);
              calibrated2 = (if calibrated1 > 100 then 100 else calibrated1)
          in Some calibrated2)"

definition Calibrate :: "ConfidenceCalibrator \<Rightarrow> real \<Rightarrow> real option" where
  "Calibrate c predictedConfidence = calibrateInternal c predictedConfidence"

text \<open>The bucket after one observation, as \<^verbatim>\<open>Update\<close> rewrites it field by field.\<close>

definition updateBucket :: "CalibrationBucket \<Rightarrow> bool \<Rightarrow> CalibrationBucket" where
  "updateBucket b actualCorrect =
     (let b1 = b\<lparr>TotalCount := TotalCount b + 1\<rparr>;
          b2 = (if actualCorrect then b1\<lparr>CorrectCount := CorrectCount b1 + 1\<rparr> else b1);
          b3 = (if TotalCount b2 > 0
                then b2\<lparr>ActualAccuracy :=
                         real_of_int (CorrectCount b2) / real_of_int (TotalCount b2)\<rparr>
                else b2);
          expectedAccuracy = (RangeMin b3 + RangeMax b3) / 200;
          b4 = (if expectedAccuracy > 0
                then b3\<lparr>CalibrationFactor := ActualAccuracy b3 / expectedAccuracy\<rparr>
                else b3)
      in b4)"

text \<open>\<^verbatim>\<open>c.history[len(c.history)-500:]\<close> when the history is longer than 500.\<close>

definition keepLast :: "nat \<Rightarrow> 'a list \<Rightarrow> 'a list" where
  "keepLast n xs = (if length xs > n then drop (length xs - n) xs else xs)"

definition Update :: "ConfidenceCalibrator \<Rightarrow> real \<Rightarrow> bool \<Rightarrow> ConfidenceCalibrator option" where
  "Update c predictedConfidence actualCorrect =
     (let idx = bucketIdx predictedConfidence in
      if idx < 0 \<or> int (length (buckets c)) \<le> idx then None
      else
        let c1 = c\<lparr>buckets := (buckets c)[nat idx :=
                                  updateBucket (buckets c ! nat idx) actualCorrect]\<rparr>
        in case calibrateInternal c1 predictedConfidence of
             None \<Rightarrow> None
           | Some calibrated \<Rightarrow>
               Some (c1\<lparr>history := keepLast 500
                        (history c1 @ [\<lparr> PredictedConf = predictedConfidence,
                                        ActualCorrect = actualCorrect,
                                        CalibratedConf = calibrated \<rparr>])\<rparr>))"

section \<open>feedback\_learning.go: the feedback log\<close>

record FeedbackEntry =
  File1Column :: string
  File2Column :: string
  IsCorrect :: bool
  CorrectMatch :: string
  UserNote :: string
  NameSimilarity :: real
  DataSimilarity :: real
  PatternScore :: real
  Confidence :: real

record Correction =
  Suggested :: string
  Correct :: string
  Count :: int

text \<open>
  \<^verbatim>\<open>Corrections map[string]Correction\<close> is an association list with one pair per key:
  \<^verbatim>\<open>GetLearnedBoost\<close> ranges over its values, and only asks whether some value matches.
\<close>

record FeedbackData =
  Matches :: "FeedbackEntry list"
  Corrections :: "(string \<times> Correction) list"

definition newFeedbackData :: FeedbackData where
  "newFeedbackData = \<lparr> Matches = [], Corrections = [] \<rparr>"

definition correctionKey :: "string \<Rightarrow> string \<Rightarrow> string" where
  "correctionKey file1Col file2Col = file1Col @ ''|'' @ file2Col"

text \<open>
  The part of \<^verbatim>\<open>AddFeedback\<close> that runs under the write lock: the entry is appended, a
  correction is upserted, and the batch for the weight learner is cut from the end of the
  log. It returns the new data and \<^verbatim>\<open>recentFeedback\<close>.
\<close>

definition recordFeedback :: "FeedbackData \<Rightarrow> FeedbackEntry \<Rightarrow> FeedbackData \<times> FeedbackEntry list" where
  "recordFeedback d entry =
     (let matches = Matches d @ [entry];
          corrections =
            (if \<not> IsCorrect entry \<and> CorrectMatch entry \<noteq> []
             then
               let key = correctionKey (File1Column entry) (File2Column entry);
                   count = (case map_of (Corrections d) key of
                              Some existing \<Rightarrow> Count existing + 1
                            | None \<Rightarrow> 1)
               in AList.update key
                    \<lparr> Suggested = File2Column entry,
                      Correct = CorrectMatch entry,
                      Count = count \<rparr> (Corrections d)
             else Corrections d);
          recentFeedback =
            (if length matches > 10 then drop (length matches - 10) matches else matches)
      in (\<lparr> Matches = matches, Corrections = corrections \<rparr>, recentFeedback))"

text \<open>
  \<^verbatim>\<open>GetLearnedBoost\<close>: the first entry of the log for the pair decides; then the
  corrections table under the exact key; then any correction that suggested \<open>file2Col\<close>.
\<close>

definition GetLearnedBoost :: "FeedbackData \<Rightarrow> string \<Rightarrow> string \<Rightarrow> real" where
  "GetLearnedBoost d file1Col file2Col =
     (case List.find (\<lambda>m. File1Column m = file1Col \<and> File2Column m = file2Col) (Matches d) of
        Some m \<Rightarrow> (if IsCorrect m then 0.2 else - 0.3)
      | None \<Rightarrow>
          (if map_of (Corrections d) (correctionKey file1Col file2Col) \<noteq> None then - 0.25
           else if list_ex (\<lambda>(k, correction). Suggested correction = file2Col) (Corrections d)
                then - 0.15
           else 0))"

section \<open>adaptive\_learning.go\<close>

record AdaptiveWeights =
  Name :: real
  Data :: real
  Pattern :: real
  LLM :: real

record TrainingHistoryEntry =
  Loss :: real
  Weights :: AdaptiveWeights
  BatchSize :: int

record AdaptiveWeightLearner =
  weights :: AdaptiveWeights
  learningRate :: real
  trainingHistory :: "TrainingHistoryEntry list"

text \<open>The learner that \<^verbatim>\<open>GetAdaptiveLearner\<close> builds when no snapshot is on disk.\<close>

definition newAdaptiveLearner :: AdaptiveWeightLearner where
  "newAdaptiveLearner =
     \<lparr> weights = \<lparr> Name = 0.35, Data = 0.30, Pattern = 0.20, LLM = 0.15 \<rparr>,
       learningRate = 0.01,
       trainingHistory = [] \<rparr>"

definition CalculateScore :: "AdaptiveWeightLearner \<Rightarrow> real \<Rightarrow> real \<Rightarrow> real \<Rightarrow> real \<Rightarrow> real" where
  "CalculateScore a nameSim dataSim patternScore llmScore =
     (let w = weights a in
      (nameSim * Name w) + (dataSim * Data w) + (patternScore * Pattern w) + (llmScore * LLM w))"

text \<open>
  One round of the loop of \<^verbatim>\<open>UpdateWeights\<close>: the accumulator is the pair of
  \<^verbatim>\<open>gradients\<close> and \<^verbatim>\<open>totalLoss\<close>; the weights are read, never written, in the loop.
\<close>

definition accumulateGradient ::
  "AdaptiveWeights \<Rightarrow> AdaptiveWeights \<times> real \<Rightarrow> FeedbackEntry \<Rightarrow> AdaptiveWeights \<times> real" where
  "accumulateGradient w acc fb =
     (let gradients = fst acc;
          totalLoss = snd acc;
          predicted = (NameSimilarity fb * Name w) + (DataSimilarity fb * Data w)
                        + (PatternScore fb * Pattern w);
          target = (if IsCorrect fb then 1 else 0);
          err = predicted - target
      in (gradients\<lparr> Name := Name gradients + err * NameSimilarity fb,
                     Data := Data gradients + err * DataSimilarity fb,
                     Pattern := Pattern gradients + err * PatternScore fb \<rparr>,
          totalLoss + err * err))"

definition averageGradients :: "AdaptiveWeights \<Rightarrow> real \<Rightarrow> AdaptiveWeights" where
  "averageGradients gradients n =
     gradients\<lparr> Name := Name gradients / n,
                Data := Data gradients / n,
                Pattern := Pattern gradients / n \<rparr>"

definition descend :: "real \<Rightarrow> AdaptiveWeights \<Rightarrow> AdaptiveWeights \<Rightarrow> AdaptiveWeights" where
  "descend rate w gradients =
     w\<lparr> Name := Name w - rate * Name gradients,
        Data := Data w - rate * Data gradients,
        Pattern := Pattern w - rate * Pattern gradients \<rparr>"

definition floorWeights :: "AdaptiveWeights \<Rightarrow> AdaptiveWeights" where
  "floorWeights w =
     w\<lparr> Name := max 0.05 (Name w),
        Data := max 0.05 (Data w),
        Pattern := max 0.05 (Pattern w),
        LLM := max 0.05 (LLM w) \<rparr>"

definition normalizeWeights :: "AdaptiveWeights \<Rightarrow> AdaptiveWeights" where
  "normalizeWeights w =
     (let total = Name w + Data w + Pattern w + LLM w in
      if total > 0
      then w\<lparr> Name := Name w / total,
              Data := Data w / total,
              Pattern := Pattern w / total,
              LLM := LLM w / total \<rparr>
      else w)"

definition UpdateWeights :: "AdaptiveWeightLearner \<Rightarrow> FeedbackEntry list \<Rightarrow> AdaptiveWeightLearner" where
  "UpdateWeights a feedbackBatch =
     (if length feedbackBatch = 0 then a
      else
        let n = real (length feedbackBatch);
            acc = foldl (accumulateGradient (weights a))
                    (\<lparr> Name = 0, Data = 0, Pattern = 0, LLM = 0 \<rparr>, 0) feedbackBatch;
            gradients = averageGradients (fst acc) n;
            totalLoss = snd acc;
            w = normalizeWeights (floorWeights (descend (learningRate a) (weights a) gradients));
            avgLoss = totalLoss / n
        in a\<lparr> weights := w,
              trainingHistory := keepLast 100
                (trainingHistory a @
                   [\<lparr> Loss = avgLoss, Weights = w, BatchSize = int (length feedbackBatch) \<rparr>]) \<rparr>)"

section \<open>feedback\_learning.go: the fan-out to the learners\<close>

text \<open>
  The process-wide singletons that a feedback submission touches. The pattern learner is
  left out: \<^verbatim>\<open>LearnFromPositive\<close> and \<^verbatim>\<open>LearnFromNegative\<close> write only to its own state.
\<close>

record LearningSystems =
  feedbackSystem :: FeedbackData
  confidenceCalibrator :: ConfidenceCalibrator
  adaptiveLearner :: AdaptiveWeightLearner

definition newLearningSystems :: LearningSystems where
  "newLearningSystems =
     \<lparr> feedbackSystem = newFeedbackData,
       confidenceCalibrator = newConfidenceCalibrator,
       adaptiveLearner = newAdaptiveLearner \<rparr>"

definition triggerMLLearning ::
  "LearningSystems \<Rightarrow> FeedbackEntry \<Rightarrow> FeedbackEntry list \<Rightarrow> LearningSystems option" where
  "triggerMLLearning s feedback recentBatch =
     (case Update (confidenceCalibrator s) (Confidence feedback) (IsCorrect feedback) of
        None \<Rightarrow> None
      | Some calibrator \<Rightarrow>
          let s1 = s\<lparr>confidenceCalibrator := calibrator\<rparr>;
              s2 = (if length recentBatch \<ge> 10
                    then s1\<lparr>adaptiveLearner := UpdateWeights (adaptiveLearner s1) recentBatch\<rparr>
                    else s1)
          in Some s2)"

text \<open>
  \<^verbatim>\<open>AddFeedback\<close>: the locked section, then \<^verbatim>\<open>go f.triggerMLLearning(entry, recentFeedback)\<close>.
  The goroutine is run to its end before the next submission; the batch it receives was
  cut under the lock, so how many times \<^verbatim>\<open>UpdateWeights\<close> runs does not depend on the
  schedule.
\<close>

definition AddFeedback :: "LearningSystems \<Rightarrow> FeedbackEntry \<Rightarrow> LearningSystems option" where
  "AddFeedback s entry =
     (let r = recordFeedback (feedbackSystem s) entry in
      triggerMLLearning (s\<lparr>feedbackSystem := fst r\<rparr>) entry (snd r))"

text \<open>A run of submissions, stopping at the first panic.\<close>

fun AddFeedbacks :: "LearningSystems \<Rightarrow> FeedbackEntry list \<Rightarrow> LearningSystems option" where
  "AddFeedbacks s [] = Some s"
| "AddFeedbacks s (entry # entries) =
     (case AddFeedback s entry of None \<Rightarrow> None | Some s' \<Rightarrow> AddFeedbacks s' entries)"

section \<open>state.go and models: the inputs of a matching request\<close>

record DataFrame =
  Headers :: "string list"
  Rows :: "string list list"
  FilePath :: string
  FileName :: string


section \<open>normalized\_matcher.go\<close>

text \<open>
  The sample size of \<^verbatim>\<open>CalculateNormalizedMatch\<close>: one variable, lowered twice, and used
  as the bound of both loops.
\<close>

definition sampleSize :: "DataFrame \<Rightarrow> DataFrame \<Rightarrow> nat" where
  "sampleSize df1 df2 =
     (let s0 = 200;
          s1 = (if length (Rows df1) < s0 then length (Rows df1) else s0);
          s2 = (if length (Rows df2) < s1 then length (Rows df2) else s1)
      in s2)"

text \<open>
  The body of either loop at row \<open>i\<close>: what the row adds to the set of normalised values.
  \<open>normalizeValue\<close> stands for \<^verbatim>\<open>FormatNormalizer.NormalizeValue\<close>, a pure function of the
  cell. Column indices come from ranging over the headers and are never negative.
\<close>

definition sampleValue :: "(string \<Rightarrow> string) \<Rightarrow> string list list \<Rightarrow> nat \<Rightarrow> nat \<Rightarrow> string list" where
  "sampleValue normalizeValue rows colIdx i =
     (if colIdx < length (rows ! i)
      then
        let val = rows ! i ! colIdx in
        if val \<noteq> []
        then
          let normalized = normalizeValue val in
          if normalized \<noteq> [] then [normalized] else []
        else []
      else [])"

definition normalizedValues :: "(string \<Rightarrow> string) \<Rightarrow> string list list \<Rightarrow> nat \<Rightarrow> nat \<Rightarrow> string set" where
  "normalizedValues normalizeValue rows colIdx n =
     set (concat (map (sampleValue normalizeValue rows colIdx) [0..<n]))"

definition jaccard :: "string set \<Rightarrow> string set \<Rightarrow> real" where
  "jaccard normalized1 normalized2 =
     (if card normalized1 = 0 \<or> card normalized2 = 0 then 0
      else
        let intersection = int (card {v \<in> normalized1. v \<in> normalized2});
            union = int (card normalized1) + int (card normalized2) - intersection
        in if union = 0 then 0 else real_of_int intersection / real_of_int union)"

definition CalculateNormalizedMatch ::
  "(string \<Rightarrow> string) \<Rightarrow> DataFrame \<Rightarrow> DataFrame \<Rightarrow> nat \<Rightarrow> nat \<Rightarrow> real" where
  "CalculateNormalizedMatch normalizeValue df1 df2 col1Idx col2Idx =
     (let n = sampleSize df1 df2;
          normalized1 = normalizedValues normalizeValue (Rows df1) col1Idx n;
          normalized2 = normalizedValues normalizeValue (Rows df2) col2Idx n
      in jaccard normalized1 normalized2)"

section \<open>enhanced\_similarity.go\<close>

record SimilarityResult =
  res_File1Column :: string
  res_File2Column :: string
  res_Similarity :: real
  res_Confidence :: real
  res_Type :: string
  res_DataSimilarity :: real
  res_NameSimilarity :: real
  res_DistributionSimilarity :: real
  res_JSONConfidence :: real
  res_LLMSemanticScore :: real
  res_Reason :: string
  res_TokenSimilarity :: real
  res_SynonymMatch :: bool
  res_PatternMatch :: string
  res_ValueOverlap :: real











section \<open>Example inputs\<close>

text \<open>Feedback on the pair \<open>user_id\<close>, \<open>identifier\<close>: once confirmed, once rejected.\<close>

definition confirmedFeedback :: FeedbackEntry where
  "confirmedFeedback =
     \<lparr> File1Column = ''user_id'', File2Column = ''identifier'', IsCorrect = True,
       CorrectMatch = [], UserNote = [], NameSimilarity = 0.5,
       DataSimilarity = 0.8, PatternScore = 0, Confidence = 60 \<rparr>"

definition rejectedFeedback :: FeedbackEntry where
  "rejectedFeedback =
     \<lparr> File1Column = ''user_id'', File2Column = ''identifier'', IsCorrect = False,
       CorrectMatch = ''account_id'', UserNote = [], NameSimilarity = 0.5,
       DataSimilarity = 0.8, PatternScore = 0, Confidence = 60 \<rparr>"

text \<open>
  The same pair confirmed with strong data and pattern scores, confirmed on its data score
  alone, and confirmed with scores outside \<open>[0, 1]\<close>: the handler copies the four
  \<^verbatim>\<open>float64\<close> scores of the request into the entry as they come.
\<close>

definition strongDataFeedback :: FeedbackEntry where
  "strongDataFeedback =
     \<lparr> File1Column = ''user_id'', File2Column = ''identifier'', IsCorrect = True,
       CorrectMatch = [], UserNote = [], NameSimilarity = 0.5,
       DataSimilarity = 1, PatternScore = 0.9, Confidence = 80 \<rparr>"

definition dataOnlyFeedback :: FeedbackEntry where
  "dataOnlyFeedback =
     \<lparr> File1Column = ''user_id'', File2Column = ''identifier'', IsCorrect = True,
       CorrectMatch = [], UserNote = [], NameSimilarity = 0,
       DataSimilarity = 1, PatternScore = 0, Confidence = 40 \<rparr>"

definition outOfRangeFeedback :: FeedbackEntry where
  "outOfRangeFeedback =
     \<lparr> File1Column = ''user_id'', File2Column = ''identifier'', IsCorrect = True,
       CorrectMatch = [], UserNote = [], NameSimilarity = - 20,
       DataSimilarity = 10, PatternScore = 0, Confidence = 60 \<rparr>"

text \<open>A learner whose name weight sits on the floor, the four weights summing to 1.\<close>

definition flooredLearner :: AdaptiveWeightLearner where
  "flooredLearner =
     \<lparr> weights = \<lparr> Name = 0.05, Data = 0.5, Pattern = 0.3, LLM = 0.15 \<rparr>,
       learningRate = 0.01,
       trainingHistory = [] \<rparr>"





text \<open>Two small datasets: three rows against two.\<close>

definition ordersFrame :: DataFrame where
  "ordersFrame =
     \<lparr> Headers = [''customer''], Rows = [[''ann''], [''bob''], [''cid'']],
       FilePath = ''orders.csv'', FileName = ''orders.csv'' \<rparr>"

definition customersFrame :: DataFrame where
  "customersFrame =
     \<lparr> Headers = [''name''], Rows = [[''ann''], [''cid'']],
       FilePath = ''customers.csv'', FileName = ''customers.csv'' \<rparr>"

section \<open>Properties\<close>

subsection \<open>Pattern confidence\<close>

lemma wrap64_id:
  assumes "- (2 ^ 63) \<le> x" "x < 2 ^ 63"
  shows "wrap64 x = x"
proof -
  have "0 \<le> x + 2 ^ 63" "x + 2 ^ 63 < 2 ^ 64" using assms by simp_all
  then have "(x + 2 ^ 63) mod 2 ^ 64 = x + 2 ^ 63" by (rule mod_pos_pos_trivial)
  then show ?thesis by (simp add: wrap64_def)
qed

lemma calculatePatternConfidence_formula:
  assumes "0 \<le> success" "0 \<le> fail" "success + fail < 2 ^ 63"
  shows "calculatePatternConfidence success fail =
           (real_of_int success + 2) / (real_of_int success + real_of_int fail + 4)"
proof -
  have w: "wrap64 (success + fail) = success + fail"
    using assms by (intro wrap64_id) simp_all
  show ?thesis
  proof (cases "success + fail = 0")
    case True
    with assms have "success = 0" "fail = 0" by linarith+
    moreover have "wrap64 0 = 0" by (simp add: wrap64_def)
    ultimately show ?thesis by (simp add: calculatePatternConfidence_def)
  next
    case False
    then show ?thesis by (simp add: calculatePatternConfidence_def w Let_def add.assoc)
  qed
qed

lemma frac_mono_success:
  fixes s s' f :: real
  assumes "0 \<le> s" "0 \<le> f" "s < s'"
  shows "(s + 2) / (s + f + 4) < (s' + 2) / (s' + f + 4)"
proof -
  have "0 < (s' - s) * (f + 2)" using assms by (intro mult_pos_pos) linarith+
  then have "(s + 2) * (s' + f + 4) < (s' + 2) * (s + f + 4)" by (simp add: algebra_simps)
  moreover have "0 < s + f + 4" "0 < s' + f + 4" using assms by linarith+
  ultimately show ?thesis by (simp add: divide_simps)
qed

lemma frac_anti_fail:
  fixes s f f' :: real
  assumes "0 \<le> s" "0 \<le> f" "f < f'"
  shows "(s + 2) / (s + f' + 4) < (s + 2) / (s + f + 4)"
  using assms by (intro divide_strict_left_mono mult_pos_pos) linarith+

text \<open>
  Claim C7, as amended. For all counts \<open>success \<ge> 0\<close> and \<open>fail \<ge> 0\<close> whose sum is at
  most \<open>100000000\<close>, the pattern confidence is \<open>(success + 2) / (success + fail + 4)\<close>; it
  lies strictly between 0 and 1, it is strictly increasing in \<open>success\<close> for a fixed
  \<open>fail\<close> and strictly decreasing in \<open>fail\<close> for a fixed \<open>success\<close>, as long as the
  compared counts stay within that bound, and with no evidence at all it is 0.5. (Within
  the bound the sum does not wrap, the conversions to \<^verbatim>\<open>float64\<close> are exact, and two
  neighbouring values of the quotient lie further apart than the spacing of \<^verbatim>\<open>float64\<close>.)
\<close>

theorem pattern_confidence_laplace:
  assumes "0 \<le> success" "0 \<le> fail" "success + fail \<le> 100000000"
  shows "calculatePatternConfidence success fail =
           (real_of_int success + 2) / (real_of_int success + real_of_int fail + 4)
       \<and> 0 < calculatePatternConfidence success fail
       \<and> calculatePatternConfidence success fail < 1
       \<and> (\<forall>success'. success < success' \<and> success' + fail \<le> 100000000 \<longrightarrow>
             calculatePatternConfidence success fail < calculatePatternConfidence success' fail)
       \<and> (\<forall>fail'. fail < fail' \<and> success + fail' \<le> 100000000 \<longrightarrow>
             calculatePatternConfidence success fail' < calculatePatternConfidence success fail)
       \<and> calculatePatternConfidence 0 0 = 0.5"
proof -
  let ?s = "real_of_int success" and ?f = "real_of_int fail"
  have s: "0 \<le> ?s" and f: "0 \<le> ?f" using assms by simp_all
  have small: "x < 2 ^ 63" if "x \<le> 100000000" for x :: int using that by simp
  have e0: "calculatePatternConfidence success fail = (?s + 2) / (?s + ?f + 4)"
    using assms(1,2) small [OF assms(3)] by (rule calculatePatternConfidence_formula)
  have p: "0 < (?s + 2) / (?s + ?f + 4)" using s f by (intro divide_pos_pos) linarith+
  have l: "(?s + 2) / (?s + ?f + 4) < 1" using s f by (simp add: divide_simps)
  have i: "calculatePatternConfidence success fail < calculatePatternConfidence success' fail"
    if "success < success'" "success' + fail \<le> 100000000" for success'
  proof -
    have "0 \<le> success'" using assms(1) that(1) by linarith
    then have "calculatePatternConfidence success' fail =
            (real_of_int success' + 2) / (real_of_int success' + ?f + 4)"
      using assms(2) small [OF that(2)] by (rule calculatePatternConfidence_formula)
    moreover have "?s < real_of_int success'" using that(1) by simp
    ultimately show ?thesis using e0 frac_mono_success [OF s f] by simp
  qed
  have d: "calculatePatternConfidence success fail' < calculatePatternConfidence success fail"
    if "fail < fail'" "success + fail' \<le> 100000000" for fail'
  proof -
    have "0 \<le> fail'" using assms(2) that(1) by linarith
    with assms(1) have "calculatePatternConfidence success fail' =
            (?s + 2) / (?s + real_of_int fail' + 4)"
      using small [OF that(2)] by (rule calculatePatternConfidence_formula)
    moreover have "?f < real_of_int fail'" using that(1) by simp
    ultimately show ?thesis using e0 frac_anti_fail [OF s f] by simp
  qed
  have z: "calculatePatternConfidence 0 0 = 0.5"
    by (simp add: calculatePatternConfidence_def wrap64_def)
  show ?thesis using e0 p l i d z by simp
qed

theorem pattern_confidence_laplace_witness:
  "(0::int) \<le> 3 \<and> (0::int) \<le> 1 \<and> (3::int) + 1 \<le> 100000000
   \<and> calculatePatternConfidence 3 1 = 5 / 8
   \<and> 0 < calculatePatternConfidence 3 1
   \<and> calculatePatternConfidence 3 1 < 1
   \<and> calculatePatternConfidence 3 1 < calculatePatternConfidence 7 1
   \<and> calculatePatternConfidence 3 6 < calculatePatternConfidence 3 1"
proof -
  have h: "(0::int) \<le> 3" "(0::int) \<le> 1" "(3::int) + 1 \<le> 100000000" by simp_all
  note t = pattern_confidence_laplace [OF h]
  from t have up: "\<And>s'. 3 < s' \<Longrightarrow> s' + 1 \<le> 100000000 \<Longrightarrow>
      calculatePatternConfidence 3 1 < calculatePatternConfidence s' 1" by blast
  from t have down: "\<And>f'. 1 < f' \<Longrightarrow> 3 + f' \<le> 100000000 \<Longrightarrow>
      calculatePatternConfidence 3 f' < calculatePatternConfidence 3 1" by blast
  have "calculatePatternConfidence 3 1 < calculatePatternConfidence 7 1" by (rule up) simp_all
  moreover have "calculatePatternConfidence 3 6 < calculatePatternConfidence 3 1"
    by (rule down) simp_all
  ultimately show ?thesis using t by simp
qed

text \<open>
  At the largest \<^verbatim>\<open>int\<close> and one failure the sum wraps to the smallest \<^verbatim>\<open>int\<close>, and the
  confidence is negative.
\<close>

theorem pattern_confidence_laplace_counterexample:
  "calculatePatternConfidence 9223372036854775807 1 < 0"
proof -
  have "wrap64 (9223372036854775807 + 1) = - 9223372036854775808"
    by (simp add: wrap64_def)
  then show ?thesis by (simp add: calculatePatternConfidence_def)
qed

lemma clampBucketIdx_range: "0 \<le> clampBucketIdx i \<and> clampBucketIdx i \<le> 9"
  by (simp add: clampBucketIdx_def Let_def)

lemma bucketIdx_range: "0 \<le> bucketIdx p \<and> bucketIdx p \<le> 9"
  unfolding bucketIdx_def by (rule clampBucketIdx_range)

lemma bucketIdx_floor:
  assumes "0 \<le> x" "x \<le> 100"
  shows "bucketIdx x = min 9 \<lfloor>x / 10\<rfloor>"
proof -
  have "0 \<le> \<lfloor>x / 10\<rfloor>" using assms by simp
  moreover have "\<lfloor>x / 10\<rfloor> \<le> 10" using assms by (simp add: floor_le_iff)
  ultimately show ?thesis using assms
    by (auto simp: bucketIdx_def clampBucketIdx_def go_int_def Let_def)
qed

lemma length_initializeBuckets: "length initializeBuckets = 10"
  by (simp add: initializeBuckets_def)

lemma calibrateInternal_total:
  assumes "length (buckets c) = 10"
  shows "\<exists>y. calibrateInternal c p = Some y"
  using assms bucketIdx_range [of p]
  by (simp add: calibrateInternal_def Let_def)

lemma Update_total:
  assumes "length (buckets c) = 10"
  shows "\<exists>c'. Update c p ok = Some c' \<and> length (buckets c') = 10"
proof -
  let ?c1 = "c\<lparr>buckets := (buckets c)[nat (bucketIdx p) := updateBucket (buckets c ! nat (bucketIdx p)) ok]\<rparr>"
  have "length (buckets ?c1) = 10" using assms by simp
  then obtain y where "calibrateInternal ?c1 p = Some y"
    using calibrateInternal_total by blast
  then show ?thesis using assms bucketIdx_range [of p]
    by (simp add: Update_def Let_def)
qed


text \<open>
  Claim C9. Whatever the predicted confidence, also below 0 and above 100, the bucket index
  that \<open>Update\<close> and \<open>Calibrate\<close> compute lies in \<open>[0, 9]\<close> (the two clamps bring any
  integer there, whatever the conversion from the float produced), so on a calibrator with
  its ten buckets neither of them indexes out of range, and \<open>Update\<close> leaves ten buckets.
\<close>

theorem bucket_index_in_range:
  "0 \<le> clampBucketIdx i \<and> clampBucketIdx i \<le> 9
   \<and> 0 \<le> bucketIdx predictedConfidence \<and> bucketIdx predictedConfidence \<le> 9
   \<and> (length (buckets c) = 10 \<longrightarrow>
        (\<exists>c'. Update c predictedConfidence actualCorrect = Some c' \<and> length (buckets c') = 10)
        \<and> (\<exists>y. Calibrate c predictedConfidence = Some y))"
  using clampBucketIdx_range [of i] bucketIdx_range [of predictedConfidence]
    Update_total [of c predictedConfidence actualCorrect]
    calibrateInternal_total [of c predictedConfidence]
  by (simp add: Calibrate_def)

theorem bucket_index_in_range_witness:
  "length (buckets newConfidenceCalibrator) = 10
   \<and> bucketIdx 250 = 9 \<and> bucketIdx (- 35) = 0
   \<and> (\<exists>c'. Update newConfidenceCalibrator 250 True = Some c' \<and> length (buckets c') = 10)
   \<and> (\<exists>y. Calibrate newConfidenceCalibrator (- 35) = Some y)"
proof -
  have h: "length (buckets newConfidenceCalibrator) = 10"
    by (simp add: newConfidenceCalibrator_def length_initializeBuckets)
  have a: "bucketIdx 250 = 9"
    by (simp add: bucketIdx_def clampBucketIdx_def go_int_def)
  have b: "bucketIdx (- 35) = 0"
    by (simp add: bucketIdx_def clampBucketIdx_def go_int_def Let_def)
  show ?thesis
    using h a b bucket_index_in_range [of 0 250 newConfidenceCalibrator True]
      bucket_index_in_range [of 0 "- 35" newConfidenceCalibrator True]
    by simp
qed

text \<open>
  Claim C4. For every predicted confidence \<open>x\<close> in \<open>[0, 100]\<close> the owning bucket is
  \<open>floor (x / 10)\<close>, clamped to 9, and when that bucket holds fewer than 5 observations
  \<open>Calibrate\<close> returns \<open>x\<close> unchanged.
\<close>

theorem calibrate_identity_below_five:
  assumes "0 \<le> x" "x \<le> 100" "length (buckets c) = 10"
    and "TotalCount (buckets c ! nat (min 9 \<lfloor>x / 10\<rfloor>)) < 5"
  shows "bucketIdx x = min 9 \<lfloor>x / 10\<rfloor> \<and> Calibrate c x = Some x"
proof -
  have i: "bucketIdx x = min 9 \<lfloor>x / 10\<rfloor>" using assms(1,2) by (rule bucketIdx_floor)
  have r: "0 \<le> bucketIdx x" "bucketIdx x \<le> 9" using bucketIdx_range [of x] by simp_all
  have "TotalCount (buckets c ! nat (bucketIdx x)) < 5" using assms(4) by (simp only: i)
  then have "Calibrate c x = Some x"
    using assms(3) r by (simp add: Calibrate_def calibrateInternal_def Let_def)
  with i show ?thesis by simp
qed

theorem calibrate_identity_below_five_witness:
  "(0::real) \<le> 47 \<and> (47::real) \<le> 100 \<and> length (buckets newConfidenceCalibrator) = 10
   \<and> TotalCount (buckets newConfidenceCalibrator ! nat (min 9 \<lfloor>(47::real) / 10\<rfloor>)) < 5
   \<and> bucketIdx 47 = 4 \<and> Calibrate newConfidenceCalibrator 47 = Some 47"
proof -
  have f: "\<lfloor>(47::real) / 10\<rfloor> = 4" by (simp add: floor_eq_iff)
  have h: "length (buckets newConfidenceCalibrator) = 10"
    by (simp add: newConfidenceCalibrator_def length_initializeBuckets)
  have k: "TotalCount (buckets newConfidenceCalibrator ! nat (min 9 \<lfloor>(47::real) / 10\<rfloor>)) < 5"
    unfolding f by (simp add: newConfidenceCalibrator_def initializeBuckets_def initBucket_def)
  show ?thesis
    using calibrate_identity_below_five [of 47 newConfidenceCalibrator, OF _ _ h k] h k f
    by simp
qed

subsection \<open>Feedback log\<close>

lemma AddFeedback_Some:
  assumes "length (buckets (confidenceCalibrator s)) = 10"
  shows "\<exists>s'. AddFeedback s entry = Some s'
           \<and> feedbackSystem s' = fst (recordFeedback (feedbackSystem s) entry)
           \<and> length (buckets (confidenceCalibrator s')) = 10
           \<and> adaptiveLearner s' =
               (if length (snd (recordFeedback (feedbackSystem s) entry)) \<ge> 10
                then UpdateWeights (adaptiveLearner s) (snd (recordFeedback (feedbackSystem s) entry))
                else adaptiveLearner s)"
proof -
  obtain c' where "Update (confidenceCalibrator s) (Confidence entry) (IsCorrect entry) = Some c'"
    and "length (buckets c') = 10"
    using Update_total [OF assms] by blast
  then show ?thesis
    by (simp add: AddFeedback_def triggerMLLearning_def Let_def)
qed

lemma AddFeedback_feedbackSystem:
  assumes "AddFeedback s entry = Some s'"
  shows "feedbackSystem s' = fst (recordFeedback (feedbackSystem s) entry)"
  using assms
  by (auto simp: AddFeedback_def triggerMLLearning_def Let_def split: option.splits if_splits)

lemma Matches_recordFeedback:
  "Matches (fst (recordFeedback d entry)) = Matches d @ [entry]"
  by (simp add: recordFeedback_def Let_def)

lemma find_append_single:
  "List.find P (xs @ [x]) =
     (case List.find P xs of Some y \<Rightarrow> Some y | None \<Rightarrow> if P x then Some x else None)"
  by (induction xs) auto

text \<open>
  Claim C5, as amended. After \<open>AddFeedback\<close> has recorded an entry for \<open>(a, b)\<close> with
  \<open>isCorrect = false\<close> and a non-empty correct match, \<open>GetLearnedBoost a b\<close> is exactly
  \<open>-0.3\<close>, although the corrections table now holds the key of the pair, provided that the
  oldest entry of the log for \<open>(a, b)\<close>, if there was one, is not marked correct: the
  exact-pair branch comes first, and it reads the first entry of the log for the pair.
\<close>

theorem learned_boost_after_rejection:
  assumes "AddFeedback s entry = Some s'"
    and "\<not> IsCorrect entry" and "CorrectMatch entry \<noteq> []"
    and "case List.find (\<lambda>m. File1Column m = File1Column entry \<and> File2Column m = File2Column entry)
                (Matches (feedbackSystem s)) of
           Some m \<Rightarrow> \<not> IsCorrect m | None \<Rightarrow> True"
  shows "GetLearnedBoost (feedbackSystem s') (File1Column entry) (File2Column entry) = - 0.3
       \<and> map_of (Corrections (feedbackSystem s'))
            (correctionKey (File1Column entry) (File2Column entry)) \<noteq> None"
proof -
  have d: "feedbackSystem s' = fst (recordFeedback (feedbackSystem s) entry)"
    using assms(1) by (rule AddFeedback_feedbackSystem)
  have "GetLearnedBoost (feedbackSystem s') (File1Column entry) (File2Column entry) = - 0.3"
    using assms(2,4)
    by (simp add: d GetLearnedBoost_def Matches_recordFeedback find_append_single
        split: option.splits)
  moreover have "map_of (Corrections (feedbackSystem s'))
            (correctionKey (File1Column entry) (File2Column entry)) \<noteq> None"
    using assms(2,3) by (simp add: d recordFeedback_def Let_def update_conv')
  ultimately show ?thesis by simp
qed

lemma new_buckets: "length (buckets (confidenceCalibrator newLearningSystems)) = 10"
  by (simp add: newLearningSystems_def newConfidenceCalibrator_def length_initializeBuckets)

theorem learned_boost_after_rejection_witness:
  "\<exists>s'. AddFeedback newLearningSystems rejectedFeedback = Some s'
     \<and> GetLearnedBoost (feedbackSystem s') ''user_id'' ''identifier'' = - 0.3"
proof -
  obtain s' where s: "AddFeedback newLearningSystems rejectedFeedback = Some s'"
    using AddFeedback_Some [OF new_buckets] by blast
  have "GetLearnedBoost (feedbackSystem s') (File1Column rejectedFeedback) (File2Column rejectedFeedback) = - 0.3"
    using learned_boost_after_rejection [OF s]
    by (simp add: rejectedFeedback_def newLearningSystems_def newFeedbackData_def)
  then show ?thesis using s by (auto simp: rejectedFeedback_def)
qed

theorem learned_boost_after_rejection_counterexample:
  "map_option (\<lambda>s. GetLearnedBoost (feedbackSystem s) ''user_id'' ''identifier'')
     (AddFeedbacks newLearningSystems [confirmedFeedback, rejectedFeedback]) = Some 0.2"
proof -
  obtain s1 where s1: "AddFeedback newLearningSystems confirmedFeedback = Some s1"
    and f1: "feedbackSystem s1 = fst (recordFeedback (feedbackSystem newLearningSystems) confirmedFeedback)"
    and b1: "length (buckets (confidenceCalibrator s1)) = 10"
    using AddFeedback_Some [OF new_buckets] by blast
  obtain s2 where s2: "AddFeedback s1 rejectedFeedback = Some s2"
    and f2: "feedbackSystem s2 = fst (recordFeedback (feedbackSystem s1) rejectedFeedback)"
    using AddFeedback_Some [OF b1] by blast
  have "GetLearnedBoost (feedbackSystem s2) ''user_id'' ''identifier'' = 0.2"
    by (simp add: f2 f1 GetLearnedBoost_def Matches_recordFeedback newLearningSystems_def
        newFeedbackData_def confirmedFeedback_def rejectedFeedback_def)
  then show ?thesis using s1 s2 by simp
qed

subsection \<open>The trigger of the weight update\<close>

lemma recent_recordFeedback:
  "snd (recordFeedback d entry) = keepLast 10 (Matches d @ [entry])"
  by (simp add: recordFeedback_def keepLast_def Let_def)

lemma length_keepLast: "length (keepLast n xs) = min n (length xs)"
  by (simp add: keepLast_def)

lemma trainingHistory_UpdateWeights:
  assumes "feedbackBatch \<noteq> []"
  shows "length (trainingHistory (UpdateWeights a feedbackBatch)) =
           min 100 (length (trainingHistory a) + 1)"
    and "map BatchSize (trainingHistory (UpdateWeights a feedbackBatch)) =
           keepLast 100 (map BatchSize (trainingHistory a) @ [int (length feedbackBatch)])"
  using assms by (simp_all add: UpdateWeights_def Let_def keepLast_def drop_map)

lemma AddFeedback_step:
  assumes "length (buckets (confidenceCalibrator s)) = 10"
  shows "\<exists>s'. AddFeedback s entry = Some s'
           \<and> length (buckets (confidenceCalibrator s')) = 10
           \<and> Matches (feedbackSystem s') = Matches (feedbackSystem s) @ [entry]
           \<and> adaptiveLearner s' =
               (if length (Matches (feedbackSystem s)) \<ge> 9
                then UpdateWeights (adaptiveLearner s) (keepLast 10 (Matches (feedbackSystem s) @ [entry]))
                else adaptiveLearner s)"
proof -
  obtain s' where s: "AddFeedback s entry = Some s'"
    and f: "feedbackSystem s' = fst (recordFeedback (feedbackSystem s) entry)"
    and b: "length (buckets (confidenceCalibrator s')) = 10"
    and a: "adaptiveLearner s' =
               (if length (snd (recordFeedback (feedbackSystem s) entry)) \<ge> 10
                then UpdateWeights (adaptiveLearner s) (snd (recordFeedback (feedbackSystem s) entry))
                else adaptiveLearner s)"
    using AddFeedback_Some [OF assms] by blast
  have "(length (snd (recordFeedback (feedbackSystem s) entry)) \<ge> 10)
          = (length (Matches (feedbackSystem s)) \<ge> 9)"
    by (auto simp: recent_recordFeedback length_keepLast)
  then show ?thesis using s f b a
    by (auto simp: recent_recordFeedback Matches_recordFeedback)
qed

lemma AddFeedbacks_runs:
  assumes "length (buckets (confidenceCalibrator s)) = 10"
    and "length (trainingHistory (adaptiveLearner s)) + length entries \<le> 100"
  shows "\<exists>s'. AddFeedbacks s entries = Some s'
           \<and> length (buckets (confidenceCalibrator s')) = 10
           \<and> Matches (feedbackSystem s') = Matches (feedbackSystem s) @ entries
           \<and> length (trainingHistory (adaptiveLearner s')) =
               length (trainingHistory (adaptiveLearner s))
               + ((length (Matches (feedbackSystem s)) + length entries)
                    - max 9 (length (Matches (feedbackSystem s))))"
  using assms
proof (induction entries arbitrary: s)
  case Nil
  then show ?case by simp
next
  case (Cons entry entries)
  obtain s1 where s1: "AddFeedback s entry = Some s1"
    and b1: "length (buckets (confidenceCalibrator s1)) = 10"
    and m1: "Matches (feedbackSystem s1) = Matches (feedbackSystem s) @ [entry]"
    and a1: "adaptiveLearner s1 =
               (if length (Matches (feedbackSystem s)) \<ge> 9
                then UpdateWeights (adaptiveLearner s) (keepLast 10 (Matches (feedbackSystem s) @ [entry]))
                else adaptiveLearner s)"
    using AddFeedback_step [OF Cons.prems(1)] by blast
  have ne: "keepLast 10 (Matches (feedbackSystem s) @ [entry]) \<noteq> []"
    by (simp add: keepLast_def)
  have h1: "length (trainingHistory (adaptiveLearner s1)) =
              length (trainingHistory (adaptiveLearner s))
              + (if length (Matches (feedbackSystem s)) \<ge> 9 then 1 else 0)"
    using Cons.prems(2) by (simp add: a1 trainingHistory_UpdateWeights(1) [OF ne])
  have "length (trainingHistory (adaptiveLearner s1)) + length entries \<le> 100"
    using Cons.prems(2) h1 by simp
  from Cons.IH [OF b1 this] obtain s' where
    "AddFeedbacks s1 entries = Some s'"
    "length (buckets (confidenceCalibrator s')) = 10"
    "Matches (feedbackSystem s') = Matches (feedbackSystem s1) @ entries"
    "length (trainingHistory (adaptiveLearner s')) =
               length (trainingHistory (adaptiveLearner s1))
               + ((length (Matches (feedbackSystem s1)) + length entries)
                    - max 9 (length (Matches (feedbackSystem s1))))"
    by blast
  then show ?case using s1 m1 h1 by auto
qed

text \<open>
  Claim C3, as amended. On a system whose calibrator has its ten buckets, \<open>AddFeedback\<close>
  appends the entry to the log and, when the log then holds at least ten entries, runs
  \<open>UpdateWeights\<close> once, on the ten most recent entries of the log, the new entry
  included: from the tenth submission on the update runs at every submission, over
  overlapping windows. While the log holds fewer than ten entries the learner is left as
  it was.
\<close>

theorem update_weights_trigger:
  assumes "length (buckets (confidenceCalibrator s)) = 10"
  shows "\<exists>s'. AddFeedback s entry = Some s'
     \<and> Matches (feedbackSystem s') = Matches (feedbackSystem s) @ [entry]
     \<and> adaptiveLearner s' =
         (if 10 \<le> length (Matches (feedbackSystem s'))
          then UpdateWeights (adaptiveLearner s)
                 (drop (length (Matches (feedbackSystem s')) - 10) (Matches (feedbackSystem s')))
          else adaptiveLearner s)
     \<and> length (trainingHistory (adaptiveLearner s')) =
         (if 10 \<le> length (Matches (feedbackSystem s'))
          then min 100 (length (trainingHistory (adaptiveLearner s)) + 1)
          else length (trainingHistory (adaptiveLearner s)))"
proof -
  obtain s' where s: "AddFeedback s entry = Some s'"
    and m: "Matches (feedbackSystem s') = Matches (feedbackSystem s) @ [entry]"
    and a: "adaptiveLearner s' =
               (if length (Matches (feedbackSystem s)) \<ge> 9
                then UpdateWeights (adaptiveLearner s)
                       (keepLast 10 (Matches (feedbackSystem s) @ [entry]))
                else adaptiveLearner s)"
    using AddFeedback_step [OF assms] by blast
  have k: "keepLast 10 (Matches (feedbackSystem s) @ [entry]) =
      drop (length (Matches (feedbackSystem s) @ [entry]) - 10) (Matches (feedbackSystem s) @ [entry])"
    if "length (Matches (feedbackSystem s)) \<ge> 9"
    using that by (simp add: keepLast_def)
  have ne: "keepLast 10 (Matches (feedbackSystem s) @ [entry]) \<noteq> []"
    by (simp add: keepLast_def)
  have c: "(10 \<le> length (Matches (feedbackSystem s'))) = (length (Matches (feedbackSystem s)) \<ge> 9)"
    by (auto simp: m)
  have l: "adaptiveLearner s' =
         (if 10 \<le> length (Matches (feedbackSystem s'))
          then UpdateWeights (adaptiveLearner s)
                 (drop (length (Matches (feedbackSystem s')) - 10) (Matches (feedbackSystem s')))
          else adaptiveLearner s)"
    unfolding c using a k by (simp add: m)
  have h: "length (trainingHistory (adaptiveLearner s')) =
         (if 10 \<le> length (Matches (feedbackSystem s'))
          then min 100 (length (trainingHistory (adaptiveLearner s)) + 1)
          else length (trainingHistory (adaptiveLearner s)))"
    unfolding c using a by (simp add: trainingHistory_UpdateWeights(1) [OF ne])
  show ?thesis using s m l h by blast
qed

theorem update_weights_trigger_witness:
  "\<exists>s'. AddFeedback
          (newLearningSystems\<lparr>feedbackSystem :=
             \<lparr> Matches = replicate 9 confirmedFeedback, Corrections = [] \<rparr>\<rparr>)
          rejectedFeedback = Some s'
     \<and> adaptiveLearner s' =
         UpdateWeights newAdaptiveLearner (replicate 9 confirmedFeedback @ [rejectedFeedback])
     \<and> length (trainingHistory (adaptiveLearner s')) = 1"
proof -
  let ?s = "newLearningSystems\<lparr>feedbackSystem :=
             \<lparr> Matches = replicate 9 confirmedFeedback, Corrections = [] \<rparr>\<rparr>"
  have b: "length (buckets (confidenceCalibrator ?s)) = 10"
    using new_buckets by simp
  have a: "adaptiveLearner ?s = newAdaptiveLearner" by (simp add: newLearningSystems_def)
  have t: "trainingHistory newAdaptiveLearner = []" by (simp add: newAdaptiveLearner_def)
  show ?thesis
    using update_weights_trigger [OF b, of rejectedFeedback]
    by (auto simp: a t)
qed

text \<open>
  A fresh system receives eleven feedback entries: the weight update has run twice, on the
  tenth and on the eleventh submission, and after twenty entries it has run eleven times.
\<close>

theorem update_weights_runs_per_submission:
  "map_option (\<lambda>s. length (trainingHistory (adaptiveLearner s)))
     (AddFeedbacks newLearningSystems (replicate 11 confirmedFeedback)) = Some 2
   \<and> map_option (\<lambda>s. length (trainingHistory (adaptiveLearner s)))
     (AddFeedbacks newLearningSystems (replicate 20 confirmedFeedback)) = Some 11"
proof -
  have h: "length (trainingHistory (adaptiveLearner newLearningSystems)) = 0"
    "length (Matches (feedbackSystem newLearningSystems)) = 0"
    by (simp_all add: newLearningSystems_def newAdaptiveLearner_def newFeedbackData_def)
  have a: "map_option (\<lambda>s. length (trainingHistory (adaptiveLearner s)))
     (AddFeedbacks newLearningSystems (replicate 11 confirmedFeedback)) = Some 2"
    using AddFeedbacks_runs [OF new_buckets, of "replicate 11 confirmedFeedback"] h
    by auto
  have b: "map_option (\<lambda>s. length (trainingHistory (adaptiveLearner s)))
     (AddFeedbacks newLearningSystems (replicate 20 confirmedFeedback)) = Some 11"
    using AddFeedbacks_runs [OF new_buckets, of "replicate 20 confirmedFeedback"] h
    by auto
  show ?thesis using a b by simp
qed

subsection \<open>The weight update\<close>

lemma floorWeights_pos:
  "0 < Name (floorWeights w)" "0 < Data (floorWeights w)"
  "0 < Pattern (floorWeights w)" "0 < LLM (floorWeights w)"
  by (simp_all add: floorWeights_def max_def)

lemma normalizeWeights_sum:
  assumes "0 < Name w" "0 < Data w" "0 < Pattern w" "0 < LLM w"
  shows "Name (normalizeWeights w) + Data (normalizeWeights w)
           + Pattern (normalizeWeights w) + LLM (normalizeWeights w) = 1"
    and "0 < Name (normalizeWeights w)" and "0 < Data (normalizeWeights w)"
    and "0 < Pattern (normalizeWeights w)" and "0 < LLM (normalizeWeights w)"
proof -
  let ?t = "Name w + Data w + Pattern w + LLM w"
  have t: "0 < ?t" using assms by linarith
  have n: "normalizeWeights w =
      w\<lparr> Name := Name w / ?t, Data := Data w / ?t, Pattern := Pattern w / ?t, LLM := LLM w / ?t \<rparr>"
    using t by (simp add: normalizeWeights_def Let_def)
  have "Name w / ?t + Data w / ?t + Pattern w / ?t + LLM w / ?t = ?t / ?t"
    by (simp only: add_divide_distrib)
  also have "\<dots> = 1" using t by simp
  finally show "Name (normalizeWeights w) + Data (normalizeWeights w)
           + Pattern (normalizeWeights w) + LLM (normalizeWeights w) = 1"
    by (simp add: n)
  show "0 < Name (normalizeWeights w)" using assms(1) t by (simp add: n)
  show "0 < Data (normalizeWeights w)" using assms(2) t by (simp add: n)
  show "0 < Pattern (normalizeWeights w)" using assms(3) t by (simp add: n)
  show "0 < LLM (normalizeWeights w)" using assms(4) t by (simp add: n)
qed

lemma weights_UpdateWeights:
  assumes "feedbackBatch \<noteq> []"
  shows "\<exists>u. weights (UpdateWeights a feedbackBatch) = normalizeWeights (floorWeights u)"
  using assms by (auto simp: UpdateWeights_def Let_def)

lemma learningRate_UpdateWeights:
  "learningRate (UpdateWeights a feedbackBatch) = learningRate a"
  by (simp add: UpdateWeights_def Let_def)

lemma product_ge_minus_one:
  fixes e x :: real
  assumes "- 1 \<le> e" "0 \<le> x" "x \<le> 1"
  shows "- 1 \<le> e * x"
proof (cases "0 \<le> e")
  case True
  then have "0 \<le> e * x" using assms(2) by simp
  then show ?thesis by linarith
next
  case False
  then have "e * 1 \<le> e * x" using assms(3) by (intro mult_left_mono_neg) simp_all
  then show ?thesis using assms(1) by linarith
qed

lemma accumulateGradient_lower:
  assumes "0 \<le> Name w" "0 \<le> Data w" "0 \<le> Pattern w"
    and "0 \<le> NameSimilarity fb" "NameSimilarity fb \<le> 1"
    and "0 \<le> DataSimilarity fb" "DataSimilarity fb \<le> 1"
    and "0 \<le> PatternScore fb" "PatternScore fb \<le> 1"
  shows "Name (fst acc) - 1 \<le> Name (fst (accumulateGradient w acc fb))"
    and "Data (fst acc) - 1 \<le> Data (fst (accumulateGradient w acc fb))"
    and "Pattern (fst acc) - 1 \<le> Pattern (fst (accumulateGradient w acc fb))"
proof -
  define err where "err = (NameSimilarity fb * Name w) + (DataSimilarity fb * Data w)
                        + (PatternScore fb * Pattern w) - (if IsCorrect fb then 1 else 0)"
  have "0 \<le> NameSimilarity fb * Name w" "0 \<le> DataSimilarity fb * Data w"
    "0 \<le> PatternScore fb * Pattern w"
    using assms by simp_all
  then have e: "- 1 \<le> err" by (simp add: err_def)
  have n: "- 1 \<le> err * NameSimilarity fb" using e assms(4,5) by (rule product_ge_minus_one)
  have d: "- 1 \<le> err * DataSimilarity fb" using e assms(6,7) by (rule product_ge_minus_one)
  have p: "- 1 \<le> err * PatternScore fb" using e assms(8,9) by (rule product_ge_minus_one)
  have "Name (fst (accumulateGradient w acc fb)) = Name (fst acc) + err * NameSimilarity fb"
    by (simp add: accumulateGradient_def Let_def err_def)
  then show "Name (fst acc) - 1 \<le> Name (fst (accumulateGradient w acc fb))" using n by linarith
  have "Data (fst (accumulateGradient w acc fb)) = Data (fst acc) + err * DataSimilarity fb"
    by (simp add: accumulateGradient_def Let_def err_def)
  then show "Data (fst acc) - 1 \<le> Data (fst (accumulateGradient w acc fb))" using d by linarith
  have "Pattern (fst (accumulateGradient w acc fb)) = Pattern (fst acc) + err * PatternScore fb"
    by (simp add: accumulateGradient_def Let_def err_def)
  then show "Pattern (fst acc) - 1 \<le> Pattern (fst (accumulateGradient w acc fb))"
    using p by linarith
qed

lemma foldl_accumulateGradient_lower:
  assumes "0 \<le> Name w" "0 \<le> Data w" "0 \<le> Pattern w"
    and "\<forall>fb\<in>set batch. 0 \<le> NameSimilarity fb \<and> NameSimilarity fb \<le> 1
           \<and> 0 \<le> DataSimilarity fb \<and> DataSimilarity fb \<le> 1
           \<and> 0 \<le> PatternScore fb \<and> PatternScore fb \<le> 1"
  shows "Name (fst acc) - real (length batch)
           \<le> Name (fst (foldl (accumulateGradient w) acc batch))
       \<and> Data (fst acc) - real (length batch)
           \<le> Data (fst (foldl (accumulateGradient w) acc batch))
       \<and> Pattern (fst acc) - real (length batch)
           \<le> Pattern (fst (foldl (accumulateGradient w) acc batch))"
  using assms(4)
proof (induction batch arbitrary: acc)
  case Nil
  then show ?case by simp
next
  case (Cons fb batch)
  have r: "0 \<le> NameSimilarity fb" "NameSimilarity fb \<le> 1"
    "0 \<le> DataSimilarity fb" "DataSimilarity fb \<le> 1"
    "0 \<le> PatternScore fb" "PatternScore fb \<le> 1"
    using Cons.prems by simp_all
  note st = accumulateGradient_lower [OF assms(1-3) r, of acc]
  have "\<forall>fb\<in>set batch. 0 \<le> NameSimilarity fb \<and> NameSimilarity fb \<le> 1
           \<and> 0 \<le> DataSimilarity fb \<and> DataSimilarity fb \<le> 1
           \<and> 0 \<le> PatternScore fb \<and> PatternScore fb \<le> 1"
    using Cons.prems by simp
  from Cons.IH [OF this, of "accumulateGradient w acc fb"] st
  show ?case by simp
qed

text \<open>
  What the floor and the renormalisation leave when the floored total is at most
  \<open>129 / 125\<close>.
\<close>

lemma normalize_floor_lower:
  assumes "Name (floorWeights u) + Data (floorWeights u) + Pattern (floorWeights u)
             + LLM (floorWeights u) \<le> 129 / 125"
  shows "6 / 125 \<le> Name (normalizeWeights (floorWeights u))"
    and "6 / 125 \<le> Data (normalizeWeights (floorWeights u))"
    and "6 / 125 \<le> Pattern (normalizeWeights (floorWeights u))"
    and "6 / 125 \<le> LLM (normalizeWeights (floorWeights u))"
proof -
  let ?f = "floorWeights u"
  let ?t = "Name ?f + Data ?f + Pattern ?f + LLM ?f"
  have g: "1 / 20 \<le> Name ?f" "1 / 20 \<le> Data ?f" "1 / 20 \<le> Pattern ?f" "1 / 20 \<le> LLM ?f"
    by (simp_all add: floorWeights_def)
  then have t: "0 < ?t" by linarith
  have n: "normalizeWeights ?f =
      ?f\<lparr> Name := Name ?f / ?t, Data := Data ?f / ?t, Pattern := Pattern ?f / ?t,
           LLM := LLM ?f / ?t \<rparr>"
    using t by (simp add: normalizeWeights_def Let_def)
  have "6 / 125 * ?t \<le> 6 / 125 * (129 / 125)"
    using assms by (intro mult_left_mono) simp_all
  then have b: "6 / 125 * ?t \<le> 1 / 20" by simp
  have "6 / 125 * ?t \<le> Name ?f" using b g(1) by linarith
  then have "6 / 125 \<le> Name ?f / ?t" using t by (simp add: pos_le_divide_eq)
  then show "6 / 125 \<le> Name (normalizeWeights ?f)" by (simp add: n)
  have "6 / 125 * ?t \<le> Data ?f" using b g(2) by linarith
  then have "6 / 125 \<le> Data ?f / ?t" using t by (simp add: pos_le_divide_eq)
  then show "6 / 125 \<le> Data (normalizeWeights ?f)" by (simp add: n)
  have "6 / 125 * ?t \<le> Pattern ?f" using b g(3) by linarith
  then have "6 / 125 \<le> Pattern ?f / ?t" using t by (simp add: pos_le_divide_eq)
  then show "6 / 125 \<le> Pattern (normalizeWeights ?f)" by (simp add: n)
  have "6 / 125 * ?t \<le> LLM ?f" using b g(4) by linarith
  then have "6 / 125 \<le> LLM ?f / ?t" using t by (simp add: pos_le_divide_eq)
  then show "6 / 125 \<le> LLM (normalizeWeights ?f)" by (simp add: n)
qed

text \<open>
  One update on a batch with scores in \<open>[0, 1]\<close> keeps the learning rate, the sum 1 and
  the lower bound \<open>6 / 125\<close>: each averaged gradient is at least \<open>-1\<close>, so a weight gains
  at most \<open>1 / 100\<close> before the floor, and the floored total is at most \<open>129 / 125\<close>.
\<close>

lemma UpdateWeights_bounded:
  assumes lr: "learningRate a = 1 / 100"
    and sum: "Name (weights a) + Data (weights a) + Pattern (weights a) + LLM (weights a) = 1"
    and lo: "6 / 125 \<le> Name (weights a)" "6 / 125 \<le> Data (weights a)"
      "6 / 125 \<le> Pattern (weights a)" "6 / 125 \<le> LLM (weights a)"
    and rng: "\<forall>fb\<in>set batch. 0 \<le> NameSimilarity fb \<and> NameSimilarity fb \<le> 1
           \<and> 0 \<le> DataSimilarity fb \<and> DataSimilarity fb \<le> 1
           \<and> 0 \<le> PatternScore fb \<and> PatternScore fb \<le> 1"
  shows "Name (weights (UpdateWeights a batch)) + Data (weights (UpdateWeights a batch))
           + Pattern (weights (UpdateWeights a batch)) + LLM (weights (UpdateWeights a batch)) = 1
       \<and> 6 / 125 \<le> Name (weights (UpdateWeights a batch))
       \<and> 6 / 125 \<le> Data (weights (UpdateWeights a batch))
       \<and> 6 / 125 \<le> Pattern (weights (UpdateWeights a batch))
       \<and> 6 / 125 \<le> LLM (weights (UpdateWeights a batch))"
proof (cases "batch = []")
  case True
  then show ?thesis using sum lo by (simp add: UpdateWeights_def)
next
  case False
  define n where "n = real (length batch)"
  define acc where "acc = foldl (accumulateGradient (weights a))
                    (\<lparr> Name = 0, Data = 0, Pattern = 0, LLM = 0 \<rparr>, 0) batch"
  define g where "g = averageGradients (fst acc) n"
  define u where "u = descend (learningRate a) (weights a) g"
  have n: "0 < n" using False by (simp add: n_def)
  have w0: "0 \<le> Name (weights a)" "0 \<le> Data (weights a)" "0 \<le> Pattern (weights a)"
    using lo by linarith+
  have "- n \<le> Name (fst acc) \<and> - n \<le> Data (fst acc) \<and> - n \<le> Pattern (fst acc)"
    using foldl_accumulateGradient_lower [OF w0 rng,
        of "(\<lparr> Name = 0, Data = 0, Pattern = 0, LLM = 0 \<rparr>, 0)"]
    by (simp add: acc_def n_def)
  then have "- 1 \<le> Name (fst acc) / n" "- 1 \<le> Data (fst acc) / n" "- 1 \<le> Pattern (fst acc) / n"
    using n by (simp_all add: pos_le_divide_eq)
  then have gl: "- 1 \<le> Name g" "- 1 \<le> Data g" "- 1 \<le> Pattern g"
    by (simp_all add: g_def averageGradients_def)
  have uu: "Name u \<le> Name (weights a) + 1 / 100" "Data u \<le> Data (weights a) + 1 / 100"
    "Pattern u \<le> Pattern (weights a) + 1 / 100" "LLM u = LLM (weights a)"
    using gl by (simp_all add: u_def descend_def lr)
  have f1: "Name (floorWeights u) \<le> Name (weights a) + 1 / 100"
    using uu(1) lo(1) by (simp add: floorWeights_def)
  have f2: "Data (floorWeights u) \<le> Data (weights a) + 1 / 100"
    using uu(2) lo(2) by (simp add: floorWeights_def)
  have f3: "Pattern (floorWeights u) \<le> Pattern (weights a) + 1 / 100"
    using uu(3) lo(3) by (simp add: floorWeights_def)
  have f4: "LLM (floorWeights u) \<le> LLM (weights a) + 1 / 500"
    using uu(4) lo(4) by (simp add: floorWeights_def)
  have tot: "Name (floorWeights u) + Data (floorWeights u) + Pattern (floorWeights u)
             + LLM (floorWeights u) \<le> 129 / 125"
    using f1 f2 f3 f4 sum by linarith
  have upd: "weights (UpdateWeights a batch) = normalizeWeights (floorWeights u)"
    using False by (simp add: UpdateWeights_def Let_def u_def g_def acc_def n_def)
  show ?thesis
    unfolding upd
    using normalizeWeights_sum(1) [OF floorWeights_pos [of u]] normalize_floor_lower [OF tot]
    by simp
qed

lemma foldl_UpdateWeights_bounded:
  assumes "learningRate a = 1 / 100"
    and "Name (weights a) + Data (weights a) + Pattern (weights a) + LLM (weights a) = 1"
    and "6 / 125 \<le> Name (weights a)" "6 / 125 \<le> Data (weights a)"
      "6 / 125 \<le> Pattern (weights a)" "6 / 125 \<le> LLM (weights a)"
    and "\<forall>batch\<in>set batches. \<forall>fb\<in>set batch.
           0 \<le> NameSimilarity fb \<and> NameSimilarity fb \<le> 1
           \<and> 0 \<le> DataSimilarity fb \<and> DataSimilarity fb \<le> 1
           \<and> 0 \<le> PatternScore fb \<and> PatternScore fb \<le> 1"
  shows "Name (weights (foldl UpdateWeights a batches))
           + Data (weights (foldl UpdateWeights a batches))
           + Pattern (weights (foldl UpdateWeights a batches))
           + LLM (weights (foldl UpdateWeights a batches)) = 1
       \<and> 6 / 125 \<le> Name (weights (foldl UpdateWeights a batches))
       \<and> 6 / 125 \<le> Data (weights (foldl UpdateWeights a batches))
       \<and> 6 / 125 \<le> Pattern (weights (foldl UpdateWeights a batches))
       \<and> 6 / 125 \<le> LLM (weights (foldl UpdateWeights a batches))"
  using assms
proof (induction batches arbitrary: a)
  case Nil
  then show ?case by simp
next
  case (Cons batch batches)
  have r: "\<forall>fb\<in>set batch. 0 \<le> NameSimilarity fb \<and> NameSimilarity fb \<le> 1
           \<and> 0 \<le> DataSimilarity fb \<and> DataSimilarity fb \<le> 1
           \<and> 0 \<le> PatternScore fb \<and> PatternScore fb \<le> 1"
    using Cons.prems(7) by simp
  have rs: "\<forall>batch\<in>set batches. \<forall>fb\<in>set batch.
           0 \<le> NameSimilarity fb \<and> NameSimilarity fb \<le> 1
           \<and> 0 \<le> DataSimilarity fb \<and> DataSimilarity fb \<le> 1
           \<and> 0 \<le> PatternScore fb \<and> PatternScore fb \<le> 1"
    using Cons.prems(7) by simp
  note b = UpdateWeights_bounded [OF Cons.prems(1-6) r]
  have l: "learningRate (UpdateWeights a batch) = 1 / 100"
    using Cons.prems(1) by (simp add: learningRate_UpdateWeights)
  have "foldl UpdateWeights a (batch # batches) = foldl UpdateWeights (UpdateWeights a batch) batches"
    by simp
  then show ?case
    using Cons.IH [OF l b [THEN conjunct1] b [THEN conjunct2, THEN conjunct1]
        b [THEN conjunct2, THEN conjunct2, THEN conjunct1]
        b [THEN conjunct2, THEN conjunct2, THEN conjunct2, THEN conjunct1]
        b [THEN conjunct2, THEN conjunct2, THEN conjunct2, THEN conjunct2] rs]
    by simp
qed

text \<open>
  Claim C1, as amended. Starting from the default weights, after every sequence of calls to
  \<open>UpdateWeights\<close> on batches whose name, data and pattern scores lie in \<open>[0, 1]\<close>, the four
  weights sum to 1 and each of them is at least 0.048, hence positive. (The floor of 0.05
  is applied before the weights are divided by their total, which can exceed 1, so 0.05
  itself is not a bound; scores in \<open>[0, 1]\<close> keep every intermediate value small.)
\<close>

theorem weights_sum_to_one_and_bounded_below:
  assumes "\<forall>batch\<in>set batches. \<forall>fb\<in>set batch.
           0 \<le> NameSimilarity fb \<and> NameSimilarity fb \<le> 1
           \<and> 0 \<le> DataSimilarity fb \<and> DataSimilarity fb \<le> 1
           \<and> 0 \<le> PatternScore fb \<and> PatternScore fb \<le> 1"
  shows "Name (weights (foldl UpdateWeights newAdaptiveLearner batches))
     + Data (weights (foldl UpdateWeights newAdaptiveLearner batches))
     + Pattern (weights (foldl UpdateWeights newAdaptiveLearner batches))
     + LLM (weights (foldl UpdateWeights newAdaptiveLearner batches)) = 1
   \<and> 0.048 \<le> Name (weights (foldl UpdateWeights newAdaptiveLearner batches))
   \<and> 0.048 \<le> Data (weights (foldl UpdateWeights newAdaptiveLearner batches))
   \<and> 0.048 \<le> Pattern (weights (foldl UpdateWeights newAdaptiveLearner batches))
   \<and> 0.048 \<le> LLM (weights (foldl UpdateWeights newAdaptiveLearner batches))"
proof -
  have "Name (weights (foldl UpdateWeights newAdaptiveLearner batches))
     + Data (weights (foldl UpdateWeights newAdaptiveLearner batches))
     + Pattern (weights (foldl UpdateWeights newAdaptiveLearner batches))
     + LLM (weights (foldl UpdateWeights newAdaptiveLearner batches)) = 1
   \<and> 6 / 125 \<le> Name (weights (foldl UpdateWeights newAdaptiveLearner batches))
   \<and> 6 / 125 \<le> Data (weights (foldl UpdateWeights newAdaptiveLearner batches))
   \<and> 6 / 125 \<le> Pattern (weights (foldl UpdateWeights newAdaptiveLearner batches))
   \<and> 6 / 125 \<le> LLM (weights (foldl UpdateWeights newAdaptiveLearner batches))"
    by (rule foldl_UpdateWeights_bounded [OF _ _ _ _ _ _ assms])
      (simp_all add: newAdaptiveLearner_def)
  then show ?thesis by simp
qed

theorem weights_sum_to_one_and_bounded_below_witness:
  "Name (weights (foldl UpdateWeights newAdaptiveLearner
           [replicate 10 confirmedFeedback, [rejectedFeedback, strongDataFeedback]]))
     + Data (weights (foldl UpdateWeights newAdaptiveLearner
           [replicate 10 confirmedFeedback, [rejectedFeedback, strongDataFeedback]]))
     + Pattern (weights (foldl UpdateWeights newAdaptiveLearner
           [replicate 10 confirmedFeedback, [rejectedFeedback, strongDataFeedback]]))
     + LLM (weights (foldl UpdateWeights newAdaptiveLearner
           [replicate 10 confirmedFeedback, [rejectedFeedback, strongDataFeedback]])) = 1
   \<and> 0.048 \<le> Name (weights (foldl UpdateWeights newAdaptiveLearner
           [replicate 10 confirmedFeedback, [rejectedFeedback, strongDataFeedback]]))
   \<and> 0.048 \<le> LLM (weights (foldl UpdateWeights newAdaptiveLearner
           [replicate 10 confirmedFeedback, [rejectedFeedback, strongDataFeedback]]))"
proof -
  have "\<forall>batch\<in>set [replicate 10 confirmedFeedback, [rejectedFeedback, strongDataFeedback]].
          \<forall>fb\<in>set batch.
           0 \<le> NameSimilarity fb \<and> NameSimilarity fb \<le> 1
           \<and> 0 \<le> DataSimilarity fb \<and> DataSimilarity fb \<le> 1
           \<and> 0 \<le> PatternScore fb \<and> PatternScore fb \<le> 1"
    by (simp add: confirmedFeedback_def rejectedFeedback_def strongDataFeedback_def)
  from weights_sum_to_one_and_bounded_below [OF this] show ?thesis by blast
qed

lemma accumulate_replicate:
  "foldl (accumulateGradient w) (g, l) (replicate k fb) =
     (let err = (NameSimilarity fb * Name w) + (DataSimilarity fb * Data w)
                  + (PatternScore fb * Pattern w) - (if IsCorrect fb then 1 else 0)
      in (g\<lparr> Name := Name g + real k * (err * NameSimilarity fb),
              Data := Data g + real k * (err * DataSimilarity fb),
              Pattern := Pattern g + real k * (err * PatternScore fb) \<rparr>,
          l + real k * (err * err)))"
proof (induction k)
  case 0
  then show ?case by simp
next
  case (Suc k)
  have "replicate (Suc k) fb = replicate k fb @ [fb]"
    by (simp add: replicate_append_same)
  then have step: "foldl (accumulateGradient w) (g, l) (replicate (Suc k) fb) =
      accumulateGradient w (foldl (accumulateGradient w) (g, l) (replicate k fb)) fb"
    by (simp only: foldl_append foldl.simps)
  show ?case
    unfolding step Suc.IH
    by (simp add: accumulateGradient_def Let_def distrib_right add.assoc)
qed

lemma weights_UpdateWeights_replicate:
  assumes "0 < k"
  shows "weights (UpdateWeights a (replicate k fb)) =
     (let err = (NameSimilarity fb * Name (weights a)) + (DataSimilarity fb * Data (weights a))
                  + (PatternScore fb * Pattern (weights a)) - (if IsCorrect fb then 1 else 0)
      in normalizeWeights (floorWeights (descend (learningRate a) (weights a)
           \<lparr> Name = err * NameSimilarity fb, Data = err * DataSimilarity fb,
             Pattern = err * PatternScore fb, LLM = 0 \<rparr>)))"
  using assms
  by (simp add: UpdateWeights_def accumulate_replicate Let_def averageGradients_def)

theorem weights_floor_counterexample:
  "Name (weights (UpdateWeights newAdaptiveLearner [outOfRangeFeedback])) < 0.05
   \<and> Name (weights (UpdateWeights flooredLearner (replicate 10 dataOnlyFeedback))) < 0.05"
proof -
  have a: "Name (weights (UpdateWeights newAdaptiveLearner [outOfRangeFeedback])) = 1 / 24"
    by (simp add: UpdateWeights_def Let_def accumulateGradient_def averageGradients_def
        descend_def floorWeights_def normalizeWeights_def newAdaptiveLearner_def
        outOfRangeFeedback_def)
  have b: "Name (weights (UpdateWeights flooredLearner (replicate 10 dataOnlyFeedback))) = 10 / 201"
    by (simp add: weights_UpdateWeights_replicate Let_def
        descend_def floorWeights_def normalizeWeights_def flooredLearner_def
        dataOnlyFeedback_def)
  show ?thesis unfolding a b by simp
qed

text \<open>
  Claim C6, as amended. Take a batch of entries (ten, or any positive number) that all
  confirm the same pair with the same scores \<open>n\<close>, \<open>d\<close>, \<open>p\<close> in \<open>[0, 1]\<close>, a learning rate
  of 0.01 and weights that are at least 0.05 each and sum to 1. Then the name weight after
  the update, the floor and the renormalisation is at least the name weight before the
  batch exactly when \<open>name * (n + d + p) \<le> n\<close>: the descent step raises the three weights
  in proportion to their scores, and the renormalisation takes from the name weight what
  the other two gained.
\<close>

theorem name_weight_after_confirming_batch:
  assumes "0 < k" and "IsCorrect fb"
    and "0 \<le> NameSimilarity fb" "NameSimilarity fb \<le> 1"
    and "0 \<le> DataSimilarity fb" "DataSimilarity fb \<le> 1"
    and "0 \<le> PatternScore fb" "PatternScore fb \<le> 1"
    and "learningRate a = 0.01"
    and "0.05 \<le> Name (weights a)" "0.05 \<le> Data (weights a)"
    and "0.05 \<le> Pattern (weights a)" "0.05 \<le> LLM (weights a)"
    and "Name (weights a) + Data (weights a) + Pattern (weights a) + LLM (weights a) = 1"
  shows "Name (weights a) \<le> Name (weights (UpdateWeights a (replicate k fb)))
     \<longleftrightarrow> Name (weights a) * (NameSimilarity fb + DataSimilarity fb + PatternScore fb)
           \<le> NameSimilarity fb"
proof -
  define n d p where "n = NameSimilarity fb" and "d = DataSimilarity fb" and "p = PatternScore fb"
  define wn wd wp wl where "wn = Name (weights a)" and "wd = Data (weights a)"
    and "wp = Pattern (weights a)" and "wl = LLM (weights a)"
  define r where "r = (1 / 100) * (1 - (n * wn + d * wd + p * wp))"
  note defs = n_def d_def p_def wn_def wd_def wp_def wl_def
  have rng: "0 \<le> n" "n \<le> 1" "0 \<le> d" "d \<le> 1" "0 \<le> p" "p \<le> 1"
    using assms(3-8) by (simp_all add: defs)
  have w: "1 / 20 \<le> wn" "1 / 20 \<le> wd" "1 / 20 \<le> wp" "1 / 20 \<le> wl" "wn + wd + wp + wl = 1"
    using assms(10-14) by (simp_all add: defs)
  have "n * wn \<le> wn" "d * wd \<le> wd" "p * wp \<le> wp"
    using rng w by (simp_all add: mult_left_le_one_le)
  then have "n * wn + d * wd + p * wp \<le> 19 / 20" using w by linarith
  then have r: "0 < r" by (simp add: r_def)
  define u where "u = \<lparr> Name = wn + r * n, Data = wd + r * d, Pattern = wp + r * p, LLM = wl \<rparr>"
  have "descend (learningRate a) (weights a)
          \<lparr> Name = (n * wn + d * wd + p * wp - 1) * n, Data = (n * wn + d * wd + p * wp - 1) * d,
            Pattern = (n * wn + d * wd + p * wp - 1) * p, LLM = 0 \<rparr> = u"
    by (simp add: descend_def u_def r_def assms(9) defs algebra_simps)
  then have upd: "weights (UpdateWeights a (replicate k fb)) = normalizeWeights (floorWeights u)"
    using assms(1,2) by (simp add: weights_UpdateWeights_replicate Let_def defs)
  have "0 \<le> r * n" "0 \<le> r * d" "0 \<le> r * p" using r rng by simp_all
  then have ge: "1 / 20 \<le> wn + r * n" "1 / 20 \<le> wd + r * d" "1 / 20 \<le> wp + r * p"
    using w by linarith+
  then have fl: "floorWeights u = u" using w(4) by (simp add: floorWeights_def u_def max_def)
  define T where "T = 1 + r * (n + d + p)"
  have T: "0 < T" using r rng by (simp add: T_def add_pos_nonneg)
  have tot: "Name u + Data u + Pattern u + LLM u = T"
    using w(5) by (simp add: u_def T_def algebra_simps)
  have "Name (normalizeWeights u) = (wn + r * n) / T"
    using T by (simp add: normalizeWeights_def Let_def tot) (simp add: u_def)
  then have "wn \<le> Name (weights (UpdateWeights a (replicate k fb))) \<longleftrightarrow> wn \<le> (wn + r * n) / T"
    by (simp add: upd fl)
  also have "\<dots> \<longleftrightarrow> wn * T \<le> wn + r * n" using T by (simp add: pos_le_divide_eq)
  also have "\<dots> \<longleftrightarrow> r * (wn * (n + d + p)) \<le> r * n" by (simp add: T_def algebra_simps)
  also have "\<dots> \<longleftrightarrow> wn * (n + d + p) \<le> n" using r by (simp only: mult_le_cancel_left_pos)
  finally show ?thesis by (simp add: defs)
qed

theorem name_weight_after_confirming_batch_witness:
  "Name (weights newAdaptiveLearner)
     \<le> Name (weights (UpdateWeights newAdaptiveLearner (replicate 10 confirmedFeedback)))"
proof -
  have "Name (weights newAdaptiveLearner) \<le>
          Name (weights (UpdateWeights newAdaptiveLearner (replicate 10 confirmedFeedback)))
     \<longleftrightarrow> Name (weights newAdaptiveLearner)
            * (NameSimilarity confirmedFeedback + DataSimilarity confirmedFeedback
               + PatternScore confirmedFeedback)
           \<le> NameSimilarity confirmedFeedback"
    by (rule name_weight_after_confirming_batch)
      (simp_all add: newAdaptiveLearner_def confirmedFeedback_def)
  then show ?thesis by (simp add: newAdaptiveLearner_def confirmedFeedback_def)
qed

theorem name_weight_after_confirming_batch_counterexample:
  "Name (weights (UpdateWeights newAdaptiveLearner (replicate 10 strongDataFeedback)))
     < Name (weights newAdaptiveLearner)"
proof -
  have "Name (weights (UpdateWeights newAdaptiveLearner (replicate 10 strongDataFeedback)))
          = 70345 / 201656"
    by (simp add: weights_UpdateWeights_replicate Let_def
        descend_def floorWeights_def normalizeWeights_def newAdaptiveLearner_def
        strongDataFeedback_def)
  then show ?thesis by (simp add: newAdaptiveLearner_def)
qed

subsection \<open>The custom mapping and the calibrator\<close>








subsection \<open>Filtering and ranking the results\<close>





subsection \<open>The shared sample of the normalised match\<close>

lemma sampleSize_min:
  "sampleSize df1 df2 = min 200 (min (length (Rows df1)) (length (Rows df2)))"
  by (simp add: sampleSize_def Let_def min_def)

lemma normalizedValues_cong:
  assumes "\<And>i. i < n \<Longrightarrow> rows ! i = rows' ! i"
  shows "normalizedValues nv rows colIdx n = normalizedValues nv rows' colIdx n"
proof -
  have "map (sampleValue nv rows colIdx) [0..<n] = map (sampleValue nv rows' colIdx) [0..<n]"
    using assms by (intro map_cong) (simp_all add: sampleValue_def)
  then show ?thesis by (simp add: normalizedValues_def)
qed

text \<open>
  Claim C10. \<open>CalculateNormalizedMatch\<close> uses one sample size for both columns, the
  minimum of 200 and of the two row counts. When the second dataset has no more rows than
  the first, that size is the minimum of 200 and the second row count, and the rows of the
  first dataset from that index on never contribute: with any other rows in their place,
  or none, the result is the same.
\<close>

theorem normalized_match_shared_sample:
  assumes "length (Rows df2) \<le> length (Rows df1)"
  shows "sampleSize df1 df2 = min 200 (min (length (Rows df1)) (length (Rows df2)))
   \<and> sampleSize df1 df2 = min 200 (length (Rows df2))
   \<and> CalculateNormalizedMatch normalizeValue
        (df1\<lparr>Rows := take (sampleSize df1 df2) (Rows df1) @ others\<rparr>) df2 col1Idx col2Idx
      = CalculateNormalizedMatch normalizeValue df1 df2 col1Idx col2Idx"
proof -
  let ?n = "sampleSize df1 df2"
  let ?df1 = "df1\<lparr>Rows := take ?n (Rows df1) @ others\<rparr>"
  have n: "?n = min 200 (length (Rows df2))"
    using assms by (simp add: sampleSize_min min_def)
  have "length (Rows ?df1) = ?n + length others" using assms by (simp add: n)
  then have s: "sampleSize ?df1 df2 = ?n"
    unfolding sampleSize_min [of ?df1] by (simp add: n)
  have e: "normalizedValues normalizeValue (Rows ?df1) col1Idx ?n
          = normalizedValues normalizeValue (Rows df1) col1Idx ?n"
    using assms by (intro normalizedValues_cong) (simp add: nth_append n)
  have "CalculateNormalizedMatch normalizeValue ?df1 df2 col1Idx col2Idx =
      jaccard (normalizedValues normalizeValue (Rows ?df1) col1Idx ?n)
              (normalizedValues normalizeValue (Rows df2) col2Idx ?n)"
    by (simp only: CalculateNormalizedMatch_def Let_def s)
  also have "\<dots> = jaccard (normalizedValues normalizeValue (Rows df1) col1Idx ?n)
              (normalizedValues normalizeValue (Rows df2) col2Idx ?n)"
    by (simp only: e)
  also have "\<dots> = CalculateNormalizedMatch normalizeValue df1 df2 col1Idx col2Idx"
    by (simp only: CalculateNormalizedMatch_def Let_def)
  finally show ?thesis using n sampleSize_min [of df1 df2] by simp
qed

theorem normalized_match_shared_sample_witness:
  "length (Rows customersFrame) \<le> length (Rows ordersFrame)
   \<and> sampleSize ordersFrame customersFrame = 2
   \<and> CalculateNormalizedMatch (\<lambda>v. v)
        (ordersFrame\<lparr>Rows := take 2 (Rows ordersFrame) @ [[''dan''], [''eve'']]\<rparr>)
        customersFrame 0 0
      = CalculateNormalizedMatch (\<lambda>v. v) ordersFrame customersFrame 0 0
   \<and> CalculateNormalizedMatch (\<lambda>v. v) ordersFrame customersFrame 0 0 = 1 / 3"
proof -
  have h: "length (Rows customersFrame) \<le> length (Rows ordersFrame)"
    by (simp add: customersFrame_def ordersFrame_def)
  have n: "sampleSize ordersFrame customersFrame = 2"
    by (simp add: sampleSize_def customersFrame_def ordersFrame_def)
  have u: "[0..<2] = [0, Suc 0]" by (simp add: upt_rec)
  have a: "normalizedValues (\<lambda>v. v) (Rows ordersFrame) 0 2 = {''ann'', ''bob''}"
    unfolding normalizedValues_def u by (simp add: sampleValue_def ordersFrame_def)
  have b: "normalizedValues (\<lambda>v. v) (Rows customersFrame) 0 2 = {''ann'', ''cid''}"
    unfolding normalizedValues_def u by (simp add: sampleValue_def customersFrame_def)
  have i: "{v \<in> {''ann'', ''bob''}. v \<in> {''ann'', ''cid''}} = {''ann''}" by auto
  have j: "jaccard {''ann'', ''bob''} {''ann'', ''cid''} = 1 / 3"
    unfolding jaccard_def i by simp
  have v: "CalculateNormalizedMatch (\<lambda>v. v) ordersFrame customersFrame 0 0 = 1 / 3"
    by (simp add: CalculateNormalizedMatch_def n a b j)
  show ?thesis
    using normalized_match_shared_sample [OF h, of "\<lambda>v. v" "[[''dan''], [''eve'']]" 0 0] h n v
    by simp
qed

end
